theory Spec2Isabelle
  imports Complex_Main
begin

section \<open>Python floats\<close>

text \<open>
  A \<open>float\<close> of the source is an IEEE 754 double: a finite value, an infinity or a NaN.
  A finite double is kept as the real number it stands for; the two zeros are one value
  (they compare equal, and the source never divides nor prints an amount).
  \<open>arred x\<close> is the double nearest to the real \<open>x\<close>, ties going to the even mantissa:
  53 bits of mantissa, the smallest quantum \<open>2^-1074\<close>, and an infinity from \<open>2^1024\<close> on.
  It is what a literal such as \<open>0.001\<close> denotes and how every operation rounds.
\<close>

datatype float = Finito real | MaisInf | MenosInf | NaN

fun nbits :: "nat \<Rightarrow> nat" where
  "nbits n = (if n = 0 then 0 else Suc (nbits (n div 2)))"

declare nbits.simps [simp del]

definition pow2 :: "int \<Rightarrow> real" where
  "pow2 e = (if 0 \<le> e then 2 ^ nat e else 1 / 2 ^ nat (- e))"

text \<open>\<open>expoente x\<close> is the integer \<open>e\<close> with \<open>2^e \<le> |x| < 2^(e+1)\<close>, for \<open>x\<close> other than 0.\<close>

definition expoente :: "real \<Rightarrow> int" where
  "expoente x =
     (if 1 \<le> \<bar>x\<bar> then int (nbits (nat \<lfloor>\<bar>x\<bar>\<rfloor>)) - 1
      else (let k = int (nbits (nat \<lfloor>1 / \<bar>x\<bar>\<rfloor>)) - 1
            in if 1 / \<bar>x\<bar> = pow2 k then - k else - k - 1))"

definition par_mais_proximo :: "real \<Rightarrow> int" where
  "par_mais_proximo m =
     (let f = \<lfloor>m\<rfloor>; d = m - of_int f
      in if d < 1 / 2 then f else if 1 / 2 < d then f + 1 else if even f then f else f + 1)"

definition arred :: "real \<Rightarrow> float" where
  "arred x =
     (if x = 0 then Finito 0
      else
        (let q = max (expoente x - 52) (- 1074);
             r = of_int (par_mais_proximo (x / pow2 q)) * pow2 q
         in if 2 ^ 1024 \<le> \<bar>r\<bar> then (if 0 < x then MaisInf else MenosInf) else Finito r))"

text \<open>\<open>x + y\<close>, \<open>-x\<close>, \<open>x - y\<close> and \<open>x * y\<close>: the exact result, rounded once.\<close>

fun fadd :: "float \<Rightarrow> float \<Rightarrow> float" where
  "fadd NaN y = NaN"
| "fadd x NaN = NaN"
| "fadd (Finito a) (Finito b) = arred (a + b)"
| "fadd MaisInf MenosInf = NaN"
| "fadd MenosInf MaisInf = NaN"
| "fadd MaisInf y = MaisInf"
| "fadd MenosInf y = MenosInf"
| "fadd (Finito a) y = y"

fun fneg :: "float \<Rightarrow> float" where
  "fneg (Finito a) = Finito (- a)"
| "fneg MaisInf = MenosInf"
| "fneg MenosInf = MaisInf"
| "fneg NaN = NaN"

definition fsub :: "float \<Rightarrow> float \<Rightarrow> float" where
  "fsub x y = fadd x (fneg y)"

fun fmul :: "float \<Rightarrow> float \<Rightarrow> float" where
  "fmul NaN y = NaN"
| "fmul x NaN = NaN"
| "fmul (Finito a) (Finito b) = arred (a * b)"
| "fmul (Finito a) y = (if a = 0 then NaN else if 0 < a then y else fneg y)"
| "fmul x (Finito b) = (if b = 0 then NaN else if 0 < b then x else fneg x)"
| "fmul MaisInf y = y"
| "fmul MenosInf y = fneg y"

text \<open>\<open>x > y\<close>, \<open>x <= y\<close> and \<open>x == y\<close>: all false when either side is a NaN.\<close>

fun fgt :: "float \<Rightarrow> float \<Rightarrow> bool" where
  "fgt NaN y = False"
| "fgt x NaN = False"
| "fgt (Finito a) (Finito b) = (b < a)"
| "fgt MaisInf MaisInf = False"
| "fgt MaisInf y = True"
| "fgt x MaisInf = False"
| "fgt MenosInf y = False"
| "fgt (Finito a) MenosInf = True"

fun fle :: "float \<Rightarrow> float \<Rightarrow> bool" where
  "fle NaN y = False"
| "fle x NaN = False"
| "fle (Finito a) (Finito b) = (a \<le> b)"
| "fle MenosInf y = True"
| "fle x MaisInf = True"
| "fle x y = False"

fun feq :: "float \<Rightarrow> float \<Rightarrow> bool" where
  "feq NaN y = False"
| "feq x NaN = False"
| "feq x y = (x = y)"

text \<open>
  The real number a finite double stands for (0 for the others), and whether a sum is
  finite and was not changed by rounding.
\<close>

fun val :: "float \<Rightarrow> real" where
  "val (Finito a) = a"
| "val x = 0"

fun soma_exata :: "float \<Rightarrow> float \<Rightarrow> bool" where
  "soma_exata (Finito a) (Finito b) = (fadd (Finito a) (Finito b) = Finito (a + b))"
| "soma_exata x y = False"

section \<open>Banco.py: the data model\<close>

text \<open>
  A \<open>datetime.date\<close> is its day ordinal and a \<open>datetime.datetime\<close> a clock reading;
  the calls \<open>datetime.date.today()\<close> and \<open>datetime.datetime.now()\<close> are inputs of the
  functions that make them (\<open>hoje\<close>, \<open>agora\<close>).
  Objects live in a store and are named by references, since the bank, the clients and
  the callers share the same mutable account objects.
\<close>

type_synonym date = nat
type_synonym datetime = nat
type_synonym ref = nat

datatype TipoOperacao = DEPOSITO | SAQUE | TRANSFERENCIA_DEBITO | TRANSFERENCIA_CREDITO

text \<open>
  The dataclass \<open>Operacao\<close> annotates \<open>tipo: TipoOperacao\<close>, but a dataclass stores
  whatever it is given: a member of the enum or a plain \<open>str\<close>.
\<close>

datatype tipo_valor = Membro TipoOperacao | Texto string

record Operacao =
  tipo :: tipo_valor
  valor :: float
  dia :: datetime

record Endereco =
  rua :: string
  numero :: int
  bairro :: string
  cidade :: string
  estado :: string
  cep :: string

record Cliente =
  nome :: string
  cpf :: string
  enderecos :: "Endereco list"
  contas :: "ref list"

text \<open>
  The run-time class of an account object. \<open>limite_cheque_especial\<close> is an attribute
  of \<open>Corrente\<close> objects only and \<open>taxa_rendimento\<close> of \<open>Poupanca\<close> objects only, so
  the class tag carries them. Neither is a dataclass field (only \<open>Conta\<close> is decorated).
\<close>

datatype classe =
    ClasseConta
  | ClasseCorrente float
  | ClassePoupanca float

record Conta =
  classe :: classe
  titular :: ref
  saldo :: float
  numero :: string
  saques_diarios :: int
  limite_saques_diarios :: int
  operacoes :: "Operacao list"
  ultima_atualizacao :: date

record Banco =
  clientes :: "ref list"
  contas :: "ref list"

record Heap =
  obj_conta :: "ref \<Rightarrow> Conta"
  obj_cliente :: "ref \<Rightarrow> Cliente"

definition ler :: "Heap \<Rightarrow> ref \<Rightarrow> Conta" where
  "ler h r = obj_conta h r"

definition gravar :: "ref \<Rightarrow> Conta \<Rightarrow> Heap \<Rightarrow> Heap" where
  "gravar r c h = h\<lparr>obj_conta := (obj_conta h)(r := c)\<rparr>"

subsection \<open>Exceptions\<close>

text \<open>
  \<open>AttributeError t a\<close>: an object of type \<open>t\<close> has no attribute \<open>a\<close>.
  \<open>RecursionError\<close>: a comparison of objects did not come to an end.
  The other three are the classes the source declares, with their messages.
\<close>

datatype excecao =
    NonClientError string
  | NonCountError string
  | OperationError string
  | AttributeError string string
  | RecursionError

datatype resultado = Retorno | Excecao excecao

text \<open>
  \<open>NonClientError.__init__(self, member_name)\<close> appends \<open>" nao e cliente"\<close> to its
  argument. \<open>NonCountError.__init__(self, conta)\<close> builds \<open>"A conta N nao existe"\<close> from
  \<open>conta.numero\<close> and hands it to \<open>NonClientError.__init__\<close>, which appends its own text.
  \<open>raise_NonCountError x\<close> is the exception that \<open>raise NonCountError(x)\<close> propagates:
  the new \<open>NonCountError\<close> when \<open>x\<close> is an account, and the \<open>AttributeError\<close> of
  reading \<open>.numero\<close> on \<open>x\<close> when \<open>x\<close> is a \<open>str\<close>.
\<close>

definition mensagem_NonClientError :: "string \<Rightarrow> string" where
  "mensagem_NonClientError member_name = member_name @ '' nao e cliente''"

definition raise_NonClientError :: "string \<Rightarrow> excecao" where
  "raise_NonClientError member_name = NonClientError (mensagem_NonClientError member_name)"

datatype argumento = ArgConta Conta | ArgStr string

fun raise_NonCountError :: "argumento \<Rightarrow> excecao" where
  "raise_NonCountError (ArgConta c) =
     NonCountError (mensagem_NonClientError (''A conta '' @ Conta.numero c @ '' nao existe''))"
| "raise_NonCountError (ArgStr s) = AttributeError ''str'' ''numero''"

text \<open>The two messages of \<open>OperationError\<close>; a character is its code point.\<close>

definition msg_limite :: string where
  "msg_limite = ''Limite de saques di'' @ [CHR 0xE1] @ ''rios atingido''"

definition msg_saldo :: string where
  "msg_saldo =
     ''Saldo insuficiente ou outra falha na opera'' @ [CHR 0xE7, CHR 0xE3] @ ''o''"

section \<open>Conta, Corrente, Poupanca\<close>

text \<open>
  The dataclass constructor with the defaults of the fields the subclasses do not pass:
  \<open>saques_diarios = 0\<close>, \<open>limite_saques_diarios = 20\<close>, \<open>operacoes = []\<close> and
  \<open>ultima_atualizacao = date.today()\<close>. The class attributes are the literals \<open>5000.0\<close>
  and \<open>0.001\<close>.
\<close>

definition Conta_init :: "classe \<Rightarrow> ref \<Rightarrow> float \<Rightarrow> string \<Rightarrow> date \<Rightarrow> Conta" where
  "Conta_init k t s n hoje =
     \<lparr>classe = k, titular = t, saldo = s, numero = n, saques_diarios = 0,
      limite_saques_diarios = 20, operacoes = [], ultima_atualizacao = hoje\<rparr>"

definition Corrente :: "ref \<Rightarrow> float \<Rightarrow> string \<Rightarrow> date \<Rightarrow> Conta" where
  "Corrente t s n hoje = Conta_init (ClasseCorrente (arred 5000)) t s n hoje"

definition Poupanca :: "ref \<Rightarrow> float \<Rightarrow> string \<Rightarrow> date \<Rightarrow> Conta" where
  "Poupanca t s n hoje = Conta_init (ClassePoupanca (arred (1 / 1000))) t s n hoje"

definition isinstance_Corrente :: "Conta \<Rightarrow> bool" where
  "isinstance_Corrente self =
     (case classe self of ClasseCorrente l \<Rightarrow> True | _ \<Rightarrow> False)"

definition isinstance_Poupanca :: "Conta \<Rightarrow> bool" where
  "isinstance_Poupanca self =
     (case classe self of ClassePoupanca r \<Rightarrow> True | _ \<Rightarrow> False)"

text \<open>
  \<open>Corrente.debitar_com_cheque_especial\<close>. The method exists on \<open>Corrente\<close> objects
  only: \<open>None\<close> is the \<open>AttributeError\<close> of calling it on another object.
\<close>

definition debitar_com_cheque_especial :: "float \<Rightarrow> Conta \<Rightarrow> (bool \<times> Conta) option" where
  "debitar_com_cheque_especial v self =
     (case classe self of
        ClasseCorrente limite \<Rightarrow>
          Some (if fgt v (fadd limite (saldo self)) then (False, self)
                else (True, self\<lparr>classe := ClasseCorrente (fsub limite (fsub v (saldo self))),
                                 saldo := Finito 0\<rparr>))
      | _ \<Rightarrow> None)"

text \<open>
  \<open>Conta.debitar\<close>. The overdraft method is called on \<open>Corrente\<close> objects only, where it
  exists, so the \<open>None\<close> branch is never taken (lemma \<open>cheque_especial_defined\<close>).
\<close>

definition debitar :: "float \<Rightarrow> Conta \<Rightarrow> bool \<times> Conta" where
  "debitar v self =
     (if fgt v (saldo self) \<and> isinstance_Corrente self then
        (case debitar_com_cheque_especial v self of Some r \<Rightarrow> r | None \<Rightarrow> (False, self))
      else if fgt v (saldo self) then (False, self)
      else (True, self\<lparr>saldo := fsub (saldo self) v\<rparr>))"

definition creditar :: "float \<Rightarrow> Conta \<Rightarrow> Conta" where
  "creditar v self = self\<lparr>saldo := fadd (saldo self) v\<rparr>"

definition historico :: "Conta \<Rightarrow> Operacao list" where
  "historico self = operacoes self"

definition verificar_reset :: "date \<Rightarrow> Conta \<Rightarrow> Conta" where
  "verificar_reset data_atual self =
     (if data_atual \<noteq> ultima_atualizacao self
      then self\<lparr>saques_diarios := 0, ultima_atualizacao := data_atual\<rparr>
      else self)"

definition limite_saque :: "date \<Rightarrow> Conta \<Rightarrow> bool \<times> Conta" where
  "limite_saque hoje self =
     (let self1 = verificar_reset hoje self
      in if isinstance_Poupanca self1
         then (saques_diarios self1 < limite_saques_diarios self1, self1)
         else (True, self1))"

definition aplicar_rendimentos :: "Conta \<Rightarrow> Conta option" where
  "aplicar_rendimentos self =
     (case classe self of
        ClassePoupanca taxa \<Rightarrow>
          Some (self\<lparr>saldo := fmul (saldo self) (fadd (Finito 1) taxa)\<rparr>)
      | _ \<Rightarrow> None)"

section \<open>Objects in the store\<close>

text \<open>
  The statements of the source on an account object, as updates of the store:
  \<open>conta.debitar(v)\<close>, \<open>conta.creditar(v)\<close>, \<open>conta.limite_saque()\<close> and
  \<open>conta.operacoes.append(op)\<close>.
\<close>

definition debitar_em :: "ref \<Rightarrow> float \<Rightarrow> Heap \<Rightarrow> bool \<times> Heap" where
  "debitar_em conta v h =
     (case debitar v (ler h conta) of (ok, c) \<Rightarrow> (ok, gravar conta c h))"

definition creditar_em :: "ref \<Rightarrow> float \<Rightarrow> Heap \<Rightarrow> Heap" where
  "creditar_em conta v h = gravar conta (creditar v (ler h conta)) h"

definition limite_saque_em :: "ref \<Rightarrow> date \<Rightarrow> Heap \<Rightarrow> bool \<times> Heap" where
  "limite_saque_em conta hoje h =
     (case limite_saque hoje (ler h conta) of (ok, c) \<Rightarrow> (ok, gravar conta c h))"

definition anexar :: "ref \<Rightarrow> Operacao \<Rightarrow> Heap \<Rightarrow> Heap" where
  "anexar conta op h =
     gravar conta ((ler h conta)\<lparr>operacoes := operacoes (ler h conta) @ [op]\<rparr>) h"

subsection \<open>Comparison and membership\<close>

text \<open>
  The \<open>__eq__\<close> a dataclass generates holds for two objects of the same class whose
  fields are equal, taken in the order of their declaration up to the first that
  differs; two fields, or two elements of a list, are equal when they are the same
  object or compare equal, and two lists of different lengths are unequal at once.
  Comparing two accounts compares their owners, comparing two clients compares the
  accounts they own, and so on: the comparison need not come to an end, and then its
  value is \<open>None\<close> (Python raises \<open>RecursionError\<close>). The fields of \<open>Conta\<close> are the
  seven declared ones and those of \<open>Operacao\<close> its three. Floats are compared as
  values with \<open>==\<close>; whether two NaN are one object is not modelled.
\<close>

definition Operacao_eq :: "Operacao \<Rightarrow> Operacao \<Rightarrow> bool" where
  "Operacao_eq x y = (tipo x = tipo y \<and> feq (valor x) (valor y) \<and> dia x = dia y)"

fun mesma_classe :: "classe \<Rightarrow> classe \<Rightarrow> bool" where
  "mesma_classe ClasseConta ClasseConta = True"
| "mesma_classe (ClasseCorrente a) (ClasseCorrente b) = True"
| "mesma_classe (ClassePoupanca a) (ClassePoupanca b) = True"
| "mesma_classe x y = False"

datatype comparacao =
    Contas ref ref
  | Clientes ref ref
  | Listas "ref list" "ref list"

partial_function (option) comparar :: "Heap \<Rightarrow> comparacao \<Rightarrow> bool option" where
  "comparar h k =
     (case k of
        Contas a b \<Rightarrow>
          (if \<not> mesma_classe (classe (ler h a)) (classe (ler h b)) then Some False
           else
             Option.bind
               (if titular (ler h a) = titular (ler h b) then Some True
                else comparar h (Clientes (titular (ler h a)) (titular (ler h b))))
               (\<lambda>t. Some (t \<and>
                  feq (saldo (ler h a)) (saldo (ler h b)) \<and>
                  Conta.numero (ler h a) = Conta.numero (ler h b) \<and>
                  saques_diarios (ler h a) = saques_diarios (ler h b) \<and>
                  limite_saques_diarios (ler h a) = limite_saques_diarios (ler h b) \<and>
                  list_all2 Operacao_eq (operacoes (ler h a)) (operacoes (ler h b)) \<and>
                  ultima_atualizacao (ler h a) = ultima_atualizacao (ler h b))))
      | Clientes a b \<Rightarrow>
          (if nome (obj_cliente h a) = nome (obj_cliente h b) \<and>
              cpf (obj_cliente h a) = cpf (obj_cliente h b) \<and>
              enderecos (obj_cliente h a) = enderecos (obj_cliente h b)
           then comparar h
                  (Listas (Cliente.contas (obj_cliente h a)) (Cliente.contas (obj_cliente h b)))
           else Some False)
      | Listas xs ys \<Rightarrow>
          (if length xs \<noteq> length ys then Some False
           else
             (case xs of
                [] \<Rightarrow> Some True
              | a # as \<Rightarrow>
                  Option.bind
                    (if a = hd ys then Some True else comparar h (Contas a (hd ys)))
                    (\<lambda>e. if e then comparar h (Listas as (tl ys)) else Some False))))"

text \<open>
  \<open>conta in xs\<close>: the elements are tried in order, each one first for being the very
  object and then with \<open>==\<close>; a comparison that does not end ends the search.
\<close>

fun conta_in :: "Heap \<Rightarrow> ref \<Rightarrow> ref list \<Rightarrow> bool option" where
  "conta_in h conta [] = Some False"
| "conta_in h conta (e # es) =
     (if e = conta then Some True
      else
        (case comparar h (Contas e conta) of
           None \<Rightarrow> None
         | Some True \<Rightarrow> Some True
         | Some False \<Rightarrow> conta_in h conta es))"

fun cliente_in :: "Heap \<Rightarrow> ref \<Rightarrow> ref list \<Rightarrow> bool option" where
  "cliente_in h cliente [] = Some False"
| "cliente_in h cliente (e # es) =
     (if e = cliente then Some True
      else
        (case comparar h (Clientes e cliente) of
           None \<Rightarrow> None
         | Some True \<Rightarrow> Some True
         | Some False \<Rightarrow> cliente_in h cliente es))"

section \<open>Banco\<close>

definition criar_cliente :: "Banco \<Rightarrow> ref \<Rightarrow> Banco" where
  "criar_cliente self novo_cliente = self\<lparr>clientes := clientes self @ [novo_cliente]\<rparr>"

definition nova_conta :: "Banco \<Rightarrow> ref \<Rightarrow> ref \<Rightarrow> Heap \<Rightarrow> resultado \<times> Banco \<times> Heap" where
  "nova_conta self cliente conta h =
     (case cliente_in h cliente (clientes self) of
        None \<Rightarrow> (Excecao RecursionError, self, h)
      | Some False \<Rightarrow>
          (Excecao (raise_NonClientError (nome (obj_cliente h cliente))), self, h)
      | Some True \<Rightarrow>
          (Retorno,
           self\<lparr>contas := contas self @ [conta]\<rparr>,
           h\<lparr>obj_cliente := (obj_cliente h)
                (cliente := (obj_cliente h cliente)
                   \<lparr>Cliente.contas := Cliente.contas (obj_cliente h cliente) @ [conta]\<rparr>)\<rparr>))"

text \<open>
  \<open>Banco.transferencia\<close>. \<open>agora1\<close> and \<open>agora2\<close> are the clock readings of the two
  \<open>Operacao\<close> objects it creates. Both \<open>raise\<close> statements pass \<open>conta.numero\<close>, a \<open>str\<close>,
  to \<open>NonCountError\<close>.
\<close>

definition transferencia ::
  "Banco \<Rightarrow> ref \<Rightarrow> ref \<Rightarrow> float \<Rightarrow> datetime \<Rightarrow> datetime \<Rightarrow> Heap \<Rightarrow> resultado \<times> Heap" where
  "transferencia self conta1 conta2 v agora1 agora2 h =
     (case conta_in h conta1 (contas self) of
        None \<Rightarrow> (Excecao RecursionError, h)
      | Some False \<Rightarrow>
          (Excecao (raise_NonCountError (ArgStr (Conta.numero (ler h conta1)))), h)
      | Some True \<Rightarrow>
          (case conta_in h conta2 (contas self) of
             None \<Rightarrow> (Excecao RecursionError, h)
           | Some False \<Rightarrow>
               (Excecao (raise_NonCountError (ArgStr (Conta.numero (ler h conta2)))), h)
           | Some True \<Rightarrow>
               (case debitar_em conta1 v h of
                  (True, h1) \<Rightarrow>
                    (let h2 = creditar_em conta2 v h1;
                         h3 = anexar conta1
                                \<lparr>tipo = Texto ''Transferencia - Debito'', valor = v,
                                 dia = agora1\<rparr> h2;
                         h4 = anexar conta2
                                \<lparr>tipo = Texto ''Transferencia - Credito'', valor = v,
                                 dia = agora2\<rparr> h3
                     in (Retorno, h4))
                | (False, h1) \<Rightarrow> (Excecao (OperationError msg_saldo), h1))))"

text \<open>
  The stores a successful \<open>transferencia\<close> goes through, one after each of its four
  statements: the debit, the credit and the two \<open>append\<close>s.
\<close>

definition transferencia_passos ::
  "ref \<Rightarrow> ref \<Rightarrow> float \<Rightarrow> datetime \<Rightarrow> datetime \<Rightarrow> Heap \<Rightarrow> Heap list" where
  "transferencia_passos conta1 conta2 v agora1 agora2 h =
     (let h1 = snd (debitar_em conta1 v h);
          h2 = creditar_em conta2 v h1;
          h3 = anexar conta1
                 \<lparr>tipo = Texto ''Transferencia - Debito'', valor = v, dia = agora1\<rparr> h2;
          h4 = anexar conta2
                 \<lparr>tipo = Texto ''Transferencia - Credito'', valor = v, dia = agora2\<rparr> h3
      in [h1, h2, h3, h4])"

text \<open>\<open>Banco.deposito\<close>: the operation is appended, then the amount is credited.\<close>

definition deposito :: "Banco \<Rightarrow> ref \<Rightarrow> float \<Rightarrow> datetime \<Rightarrow> Heap \<Rightarrow> resultado \<times> Heap" where
  "deposito self conta v agora h =
     (case conta_in h conta (contas self) of
        None \<Rightarrow> (Excecao RecursionError, h)
      | Some False \<Rightarrow>
          (Excecao (raise_NonCountError (ArgStr (Conta.numero (ler h conta)))), h)
      | Some True \<Rightarrow>
          (let h1 = anexar conta \<lparr>tipo = Texto ''Deposito'', valor = v, dia = agora\<rparr> h;
               h2 = creditar_em conta v h1
           in (Retorno, h2)))"

text \<open>
  \<open>Banco.saque\<close>. \<open>limite_saque\<close> runs \<open>verificar_reset\<close> before anything else, so its
  update of the object stays when the call raises afterwards.
\<close>

definition saque ::
  "Banco \<Rightarrow> ref \<Rightarrow> float \<Rightarrow> date \<Rightarrow> datetime \<Rightarrow> Heap \<Rightarrow> resultado \<times> Heap" where
  "saque self conta v hoje agora h =
     (case conta_in h conta (contas self) of
        None \<Rightarrow> (Excecao RecursionError, h)
      | Some False \<Rightarrow>
          (Excecao (raise_NonCountError (ArgStr (Conta.numero (ler h conta)))), h)
      | Some True \<Rightarrow>
          (case limite_saque_em conta hoje h of
             (False, h1) \<Rightarrow> (Excecao (OperationError msg_limite), h1)
           | (True, h1) \<Rightarrow>
               (case debitar_em conta v h1 of
                  (True, h2) \<Rightarrow>
                    (let h3 = anexar conta \<lparr>tipo = Membro SAQUE, valor = v, dia = agora\<rparr> h2;
                         h4 = gravar conta
                                ((ler h3 conta)
                                   \<lparr>saques_diarios := saques_diarios (ler h3 conta) + 1\<rparr>)
                                h3
                     in (Retorno, h4))
                | (False, h2) \<Rightarrow> (Excecao (OperationError msg_saldo), h2))))"

section \<open>Sequences of calls on one account\<close>

datatype chamada = Creditar float | Debitar float

text \<open>
  \<open>executar\<close> runs the calls in order on one object. \<open>creditado\<close> adds up, as real
  numbers, the amounts credited and \<open>debitado\<close> the amounts of the \<open>debitar\<close> calls that
  returned \<open>True\<close>. \<open>sem_cheque_especial\<close> holds when no \<open>debitar\<close> of the sequence goes
  to \<open>debitar_com_cheque_especial\<close>, and \<open>exata\<close> when no addition or subtraction of the
  sequence is changed by rounding.
\<close>

fun executar :: "chamada list \<Rightarrow> Conta \<Rightarrow> Conta" where
  "executar [] c = c"
| "executar (Creditar v # cs) c = executar cs (creditar v c)"
| "executar (Debitar v # cs) c = executar cs (snd (debitar v c))"

fun creditado :: "chamada list \<Rightarrow> real" where
  "creditado [] = 0"
| "creditado (Creditar v # cs) = val v + creditado cs"
| "creditado (Debitar v # cs) = creditado cs"

fun debitado :: "chamada list \<Rightarrow> Conta \<Rightarrow> real" where
  "debitado [] c = 0"
| "debitado (Creditar v # cs) c = debitado cs (creditar v c)"
| "debitado (Debitar v # cs) c =
     (if fst (debitar v c) then val v else 0) + debitado cs (snd (debitar v c))"

fun todos_bem_sucedidos :: "chamada list \<Rightarrow> Conta \<Rightarrow> bool" where
  "todos_bem_sucedidos [] c = True"
| "todos_bem_sucedidos (Creditar v # cs) c = todos_bem_sucedidos cs (creditar v c)"
| "todos_bem_sucedidos (Debitar v # cs) c =
     (fst (debitar v c) \<and> todos_bem_sucedidos cs (snd (debitar v c)))"

fun sem_cheque_especial :: "chamada list \<Rightarrow> Conta \<Rightarrow> bool" where
  "sem_cheque_especial [] c = True"
| "sem_cheque_especial (Creditar v # cs) c = sem_cheque_especial cs (creditar v c)"
| "sem_cheque_especial (Debitar v # cs) c =
     (\<not> (fgt v (saldo c) \<and> isinstance_Corrente c) \<and>
      sem_cheque_especial cs (snd (debitar v c)))"

fun exata :: "chamada list \<Rightarrow> Conta \<Rightarrow> bool" where
  "exata [] c = True"
| "exata (Creditar v # cs) c = (soma_exata (saldo c) v \<and> exata cs (creditar v c))"
| "exata (Debitar v # cs) c =
     ((fst (debitar v c) \<longrightarrow> soma_exata (saldo c) (fneg v)) \<and>
      exata cs (snd (debitar v c)))"

text \<open>
  The running total of a balance: each credit added, each debit the balance covers
  subtracted, in call order and in float arithmetic.
\<close>

fun acumular :: "float \<Rightarrow> chamada list \<Rightarrow> float" where
  "acumular s [] = s"
| "acumular s (Creditar v # cs) = acumular (fadd s v) cs"
| "acumular s (Debitar v # cs) = acumular (if fgt v s then s else fsub s v) cs"

text \<open>The overdraft limit of a \<open>Corrente\<close> account (0 for an account that has none).\<close>

definition limite_restante :: "Conta \<Rightarrow> float" where
  "limite_restante c = (case classe c of ClasseCorrente l \<Rightarrow> l | _ \<Rightarrow> Finito 0)"

section \<open>A bank with registered and unregistered accounts\<close>

text \<open>
  A store with \<open>Corrente\<close> accounts at the references 11 and 16 and \<open>Poupanca\<close> accounts
  at 12, 13, 14 and 15, all created on day 7 for the client at reference 0. The account
  at 14 has its twenty daily withdrawals used up. The bank has registered all of them
  but the one at 13. \<open>exemplo_heap2\<close> is the store after a withdrawal of \<open>8192.04\<close> from
  the account at 16, whose balance is \<open>3192.04\<close> (the fractions are \<open>204801 / 25\<close>
  and \<open>79801 / 25\<close>).
\<close>

definition exemplo_heap :: Heap where
  "exemplo_heap =
     \<lparr>obj_conta = (\<lambda>r. Conta_init ClasseConta 0 (Finito 0) [] 0)
        (11 := Corrente 0 (Finito 100) ''001'' 7,
         12 := Poupanca 0 (Finito 200) ''002'' 7,
         13 := Poupanca 0 (Finito 50) ''003'' 7,
         14 := (Poupanca 0 (Finito 300) ''004'' 7)\<lparr>saques_diarios := 20\<rparr>,
         15 := Poupanca 0 (Finito 10000000000000000) ''005'' 7,
         16 := Corrente 0 (arred (79801 / 25)) ''006'' 7),
      obj_cliente =
        (\<lambda>r. \<lparr>nome = ''Ana'', cpf = ''111'', enderecos = [],
              contas = [11, 12, 14, 15, 16]\<rparr>)\<rparr>"

definition exemplo_banco :: Banco where
  "exemplo_banco = \<lparr>clientes = [0], contas = [11, 12, 14, 15, 16]\<rparr>"


text \<open>
  A store with two clients of the same name and tax id, each owning one account; the
  two accounts have the same number and balance.
\<close>

definition exemplo_gemeos :: Heap where
  "exemplo_gemeos =
     \<lparr>obj_conta = (\<lambda>r. Conta_init ClasseConta 0 (Finito 0) [] 0)
        (21 := Poupanca 5 (Finito 50) ''021'' 7,
         22 := Poupanca 6 (Finito 50) ''021'' 7),
      obj_cliente = (\<lambda>r. \<lparr>nome = ''Ana'', cpf = ''111'', enderecos = [], contas = []\<rparr>)
        (5 := \<lparr>nome = ''Bia'', cpf = ''222'', enderecos = [], contas = [21]\<rparr>,
         6 := \<lparr>nome = ''Bia'', cpf = ''222'', enderecos = [], contas = [22]\<rparr>)\<rparr>"

section \<open>Float arithmetic\<close>

text \<open>
  Addition commutes, \<open><=\<close> excludes \<open>>\<close>, and a table of the roundings the examples need,
  each computed from the definition of \<open>arred\<close>.
\<close>

lemma fadd_commute: "fadd x y = fadd y x"
  by (cases x; cases y) (simp_all add: add.commute)

lemma fle_not_fgt: "fle x y \<Longrightarrow> \<not> fgt x y"
  by (cases x; cases y) simp_all

lemma soma_exata_val: "soma_exata x y \<Longrightarrow> val (fadd x y) = val x + val y"
  by (cases x; cases y) simp_all

lemma val_fneg: "val (fneg x) = - val x"
  by (cases x) simp_all

lemmas float_eval =
  arred_def expoente_def pow2_def par_mais_proximo_def nbits.simps Let_def fsub_def

lemma arred_literais:
  "arred 5000 = Finito 5000"
  "arred (1 / 1000) = Finito (1152921504606847 / 1152921504606846976)"
  "arred (1 / 10) = Finito (3602879701896397 / 36028797018963968)"
  "arred (3 / 10) = Finito (5404319552844595 / 18014398509481984)"
  "arred (79801 / 25) = Finito (3509685096326103 / 1099511627776)"
  "arred (204801 / 25) = Finito (1125905404400763 / 137438953472)"
  by (simp_all add: float_eval)

lemma arred_zero: "arred 0 = Finito 0"
  by (simp add: arred_def)

lemma tabuada:
  "arred (5100) = Finito (5100)"
  "arred (50) = Finito (50)"
  "arred (4950) = Finito (4950)"
  "arred (90) = Finito (90)"
  "arred (110) = Finito (110)"
  "arred (210) = Finito (210)"
  "arred (70) = Finito (70)"
  "arred (290) = Finito (290)"
  "arred (150) = Finito (150)"
  "arred (250) = Finito (250)"
  "arred (220) = Finito (220)"
  "arred (200) = Finito (200)"
  "arred (10000000000000001) = Finito (10000000000000000)"
  "arred (9007243235206103 / 1099511627776) = Finito (1125905404400763 / 137438953472)"
  "arred (180147587974521736397 / 36028797018963968) = Finito (2748834045021389 / 549755813888)"
  "arred (5497558138880001 / 1099511627776) = Finito (5497558138880001 / 1099511627776)"
  "arred (- (1 / 1099511627776)) = Finito (- (1 / 1099511627776))"
  "arred (7205759403792793 / 36028797018963968) = Finito (7205759403792793 / 36028797018963968)"
  "arred (180136779335416047207 / 36028797018963968) = Finito (5497338236554445 / 1099511627776)"
  by (simp_all add: float_eval)

lemmas contas_float = fsub_def tabuada arred_zero arred_literais

section \<open>Basic facts\<close>

lemma ler_gravar: "ler (gravar r c h) r' = (if r' = r then c else ler h r')"
  by (simp add: ler_def gravar_def)

lemma gravar_ler: "gravar r (ler h r) h = h"
  by (simp add: ler_def gravar_def)

lemma gravar_gravar: "gravar r c (gravar r c' h) = gravar r c h"
  by (simp add: gravar_def)

lemma cheque_especial_defined:
  "isinstance_Corrente self \<Longrightarrow> debitar_com_cheque_especial v self \<noteq> None"
  by (simp add: isinstance_Corrente_def debitar_com_cheque_especial_def split: classe.splits)

lemma debitar_Corrente:
  "classe self = ClasseCorrente l \<Longrightarrow>
   debitar v self =
     (if \<not> fgt v (saldo self) then (True, self\<lparr>saldo := fsub (saldo self) v\<rparr>)
      else if \<not> fgt v (fadd l (saldo self))
        then (True, self\<lparr>classe := ClasseCorrente (fsub l (fsub v (saldo self))),
                         saldo := Finito 0\<rparr>)
      else (False, self))"
  by (simp add: debitar_def isinstance_Corrente_def debitar_com_cheque_especial_def)


lemma debitar_sem_cheque:
  "\<not> (fgt v (saldo self) \<and> isinstance_Corrente self) \<Longrightarrow>
   debitar v self =
     (if fgt v (saldo self) then (False, self)
      else (True, self\<lparr>saldo := fsub (saldo self) v\<rparr>))"
  by (auto simp: debitar_def)

lemma debitar_falha: "\<not> fst (debitar v self) \<Longrightarrow> snd (debitar v self) = self"
  by (cases "classe self")
     (auto simp: debitar_def isinstance_Corrente_def debitar_com_cheque_especial_def
           split: if_splits)



lemma isinstance_Corrente_creditar:
  "isinstance_Corrente (creditar v c) = isinstance_Corrente c"
  by (simp add: isinstance_Corrente_def creditar_def)

lemma isinstance_Corrente_debitar:
  "isinstance_Corrente (snd (debitar v c)) = isinstance_Corrente c"
  by (cases "classe c")
     (auto simp: debitar_def isinstance_Corrente_def debitar_com_cheque_especial_def)

lemma sem_cheque_especial_outra:
  "\<not> isinstance_Corrente c \<Longrightarrow> sem_cheque_especial cs c"
proof (induction cs c rule: sem_cheque_especial.induct)
  case (1 c)
  show ?case by simp
next
  case (2 v cs c)
  then show ?case by (simp add: isinstance_Corrente_creditar)
next
  case (3 v cs c)
  then show ?case by (simp add: isinstance_Corrente_debitar)
qed

lemma executar_acumular:
  "sem_cheque_especial cs c \<Longrightarrow> saldo (executar cs c) = acumular (saldo c) cs"
proof (induction cs c rule: executar.induct)
  case (1 c)
  show ?case by simp
next
  case (2 v cs c)
  then show ?case by (simp add: creditar_def)
next
  case (3 v cs c)
  then have d: "debitar v c =
      (if fgt v (saldo c) then (False, c) else (True, c\<lparr>saldo := fsub (saldo c) v\<rparr>))"
    by (simp add: debitar_sem_cheque)
  from 3 show ?case by (simp add: d)
qed

lemma executar_exata:
  "sem_cheque_especial cs c \<Longrightarrow> exata cs c \<Longrightarrow>
   val (saldo (executar cs c)) = val (saldo c) + creditado cs - debitado cs c"
proof (induction cs c rule: executar.induct)
  case (1 c)
  show ?case by simp
next
  case (2 v cs c)
  then show ?case by (simp add: creditar_def soma_exata_val)
next
  case (3 v cs c)
  then have d: "debitar v c =
      (if fgt v (saldo c) then (False, c) else (True, c\<lparr>saldo := fsub (saldo c) v\<rparr>))"
    by (simp add: debitar_sem_cheque)
  from 3 show ?case
    by (auto simp: d fsub_def soma_exata_val val_fneg)
qed

subsection \<open>The daily reset\<close>

lemma verificar_reset_campos:
  "classe (verificar_reset hoje c) = classe c"
  "saldo (verificar_reset hoje c) = saldo c"
  "operacoes (verificar_reset hoje c) = operacoes c"
  "titular (verificar_reset hoje c) = titular c"
  "Conta.numero (verificar_reset hoje c) = Conta.numero c"
  "limite_saques_diarios (verificar_reset hoje c) = limite_saques_diarios c"
  by (simp_all add: verificar_reset_def)

lemma snd_limite_saque: "snd (limite_saque hoje c) = verificar_reset hoje c"
  by (simp add: limite_saque_def Let_def)



subsection \<open>The bank's operations, case by case\<close>

lemma nao_registrada:
  assumes "conta_in h conta (contas self) = Some False"
  shows "deposito self conta v agora h = (Excecao (AttributeError ''str'' ''numero''), h)"
    and "saque self conta v hoje agora h = (Excecao (AttributeError ''str'' ''numero''), h)"
    and "transferencia self conta outra v agora1 agora2 h =
           (Excecao (AttributeError ''str'' ''numero''), h)"
    and "conta_in h outra (contas self) = Some True \<Longrightarrow>
         transferencia self outra conta v agora1 agora2 h =
           (Excecao (AttributeError ''str'' ''numero''), h)"
  using assms by (simp_all add: deposito_def saque_def transferencia_def)

lemma comparacao_sem_fim:
  assumes "conta_in h conta (contas self) = None"
  shows "deposito self conta v agora h = (Excecao RecursionError, h)"
    and "saque self conta v hoje agora h = (Excecao RecursionError, h)"
    and "transferencia self conta outra v agora1 agora2 h = (Excecao RecursionError, h)"
  using assms by (simp_all add: deposito_def saque_def transferencia_def)

lemma deposito_registrada:
  assumes "conta_in h conta (contas self) = Some True"
  shows "deposito self conta v agora h =
           (Retorno,
            gravar conta
              ((ler h conta)
                 \<lparr>operacoes := operacoes (ler h conta) @
                                 [\<lparr>tipo = Texto ''Deposito'', valor = v, dia = agora\<rparr>],
                  saldo := fadd (saldo (ler h conta)) v\<rparr>) h)"
  using assms
  by (simp add: deposito_def anexar_def creditar_em_def creditar_def ler_gravar gravar_gravar
        Let_def)

lemma saque_registrada:
  assumes "conta_in h conta (contas self) = Some True"
  shows "saque self conta v hoje agora h =
     (let c1 = verificar_reset hoje (ler h conta)
      in if \<not> fst (limite_saque hoje (ler h conta))
         then (Excecao (OperationError msg_limite), gravar conta c1 h)
         else if fst (debitar v c1)
         then (Retorno,
               gravar conta
                 ((snd (debitar v c1))
                    \<lparr>operacoes := operacoes (snd (debitar v c1)) @
                                    [\<lparr>tipo = Membro SAQUE, valor = v, dia = agora\<rparr>],
                     saques_diarios := saques_diarios (snd (debitar v c1)) + 1\<rparr>) h)
         else (Excecao (OperationError msg_saldo), gravar conta c1 h))"
proof -
  obtain ok c1 where l: "limite_saque hoje (ler h conta) = (ok, c1)"
    by (cases "limite_saque hoje (ler h conta)")
  then have c1: "c1 = verificar_reset hoje (ler h conta)"
    using snd_limite_saque [of hoje "ler h conta"] by simp
  obtain ok2 c2 where d: "debitar v c1 = (ok2, c2)"
    by (cases "debitar v c1")
  have "\<not> ok2 \<Longrightarrow> c2 = c1"
    using debitar_falha [of v c1] d by simp
  then show ?thesis
    using assms l d c1 [symmetric]
    by (cases ok; cases ok2)
       (simp_all add: saque_def limite_saque_em_def debitar_em_def anexar_def ler_gravar
          gravar_gravar Let_def)
qed

lemma transferencia_registradas:
  assumes "conta_in h conta1 (contas self) = Some True"
    and "conta_in h conta2 (contas self) = Some True"
  shows "transferencia self conta1 conta2 v agora1 agora2 h =
           (if fst (debitar v (ler h conta1))
            then (Retorno, last (transferencia_passos conta1 conta2 v agora1 agora2 h))
            else (Excecao (OperationError msg_saldo), h))"
proof -
  obtain ok c where d: "debitar v (ler h conta1) = (ok, c)"
    by (cases "debitar v (ler h conta1)")
  have "\<not> ok \<Longrightarrow> c = ler h conta1"
    using debitar_falha [of v "ler h conta1"] d by simp
  then show ?thesis
    using assms d
    by (cases ok)
       (simp_all add: transferencia_def transferencia_passos_def debitar_em_def Let_def
          gravar_ler)
qed

lemma transferencia_mesma_conta:
  assumes "conta_in h conta (contas self) = Some True" and "\<not> fgt v (saldo (ler h conta))"
  shows "fst (transferencia self conta conta v agora1 agora2 h) = Retorno \<and>
         saldo (ler (snd (transferencia self conta conta v agora1 agora2 h)) conta) =
           fadd (fsub (saldo (ler h conta)) v) v"
proof -
  have d: "debitar v (ler h conta) =
             (True, (ler h conta)\<lparr>saldo := fsub (saldo (ler h conta)) v\<rparr>)"
    using assms(2) by (simp add: debitar_def)
  show ?thesis
    using assms(1)
    by (simp add: transferencia_registradas d transferencia_passos_def debitar_em_def
          creditar_em_def anexar_def ler_gravar creditar_def Let_def)
qed

lemma conta_in_ultima: "conta_in h conta (xs @ [conta]) \<noteq> Some False"
  by (induction xs) (auto split: option.splits bool.splits)

lemma nova_conta_registra:
  assumes "nova_conta self cliente conta h = (Retorno, self', h')"
  shows "conta_in h' conta (contas self') \<noteq> Some False"
  using assms conta_in_ultima
  by (auto simp: nova_conta_def split: option.splits bool.splits)

subsection \<open>The example bank\<close>

lemma comparar_Contas:
  "comparar h (Contas a b) =
     (if \<not> mesma_classe (classe (ler h a)) (classe (ler h b)) then Some False
      else
        Option.bind
          (if titular (ler h a) = titular (ler h b) then Some True
           else comparar h (Clientes (titular (ler h a)) (titular (ler h b))))
          (\<lambda>t. Some (t \<and>
             feq (saldo (ler h a)) (saldo (ler h b)) \<and>
             Conta.numero (ler h a) = Conta.numero (ler h b) \<and>
             saques_diarios (ler h a) = saques_diarios (ler h b) \<and>
             limite_saques_diarios (ler h a) = limite_saques_diarios (ler h b) \<and>
             list_all2 Operacao_eq (operacoes (ler h a)) (operacoes (ler h b)) \<and>
             ultima_atualizacao (ler h a) = ultima_atualizacao (ler h b))))"
  by (subst comparar.simps) simp

lemma exemplo_ler:
  "ler exemplo_heap 11 = Corrente 0 (Finito 100) ''001'' 7"
  "ler exemplo_heap 12 = Poupanca 0 (Finito 200) ''002'' 7"
  "ler exemplo_heap 13 = Poupanca 0 (Finito 50) ''003'' 7"
  "ler exemplo_heap 14 = (Poupanca 0 (Finito 300) ''004'' 7)\<lparr>saques_diarios := 20\<rparr>"
  "ler exemplo_heap 15 = Poupanca 0 (Finito 10000000000000000) ''005'' 7"
  "ler exemplo_heap 16 =
     Corrente 0 (Finito (3509685096326103 / 1099511627776)) ''006'' 7"
  by (simp_all add: exemplo_heap_def ler_def arred_literais)

lemma Corrente_campos:
  "Corrente t s n d =
     \<lparr>classe = ClasseCorrente (Finito 5000), titular = t, saldo = s, numero = n,
      saques_diarios = 0, limite_saques_diarios = 20, operacoes = [],
      ultima_atualizacao = d\<rparr>"
  by (simp add: Corrente_def Conta_init_def arred_literais)

lemma Poupanca_campos:
  "Poupanca t s n d =
     \<lparr>classe = ClassePoupanca (Finito (1152921504606847 / 1152921504606846976)),
      titular = t, saldo = s, numero = n, saques_diarios = 0, limite_saques_diarios = 20,
      operacoes = [], ultima_atualizacao = d\<rparr>"
  by (simp add: Poupanca_def Conta_init_def arred_literais)

lemma exemplo_registradas:
  "conta_in exemplo_heap 11 (contas exemplo_banco) = Some True"
  "conta_in exemplo_heap 12 (contas exemplo_banco) = Some True"
  "conta_in exemplo_heap 14 (contas exemplo_banco) = Some True"
  "conta_in exemplo_heap 15 (contas exemplo_banco) = Some True"
  "conta_in exemplo_heap 16 (contas exemplo_banco) = Some True"
  "conta_in exemplo_heap 13 (contas exemplo_banco) = Some False"
  by (simp_all add: exemplo_banco_def comparar_Contas exemplo_ler Corrente_campos
        Poupanca_campos)




lemma saque_exemplo_sem_saldo:
  "saque exemplo_banco 12 (Finito 500) 8 99 exemplo_heap =
     (Excecao (OperationError msg_saldo),
      gravar 12
        ((Poupanca 0 (Finito 200) ''002'' 7)\<lparr>saques_diarios := 0, ultima_atualizacao := 8\<rparr>)
        exemplo_heap)"
  by (simp add: saque_registrada exemplo_registradas exemplo_ler limite_saque_def
        verificar_reset_def isinstance_Poupanca_def Poupanca_campos Let_def
        debitar_def isinstance_Corrente_def)

subsection \<open>A comparison that does not end\<close>

text \<open>
  Comparing the accounts of the two like clients compares the clients, which compares
  their accounts again: no value comes back, and an operation on the one account at a
  bank that has registered the other raises \<open>RecursionError\<close>.
\<close>

lemma exemplo_gemeos_ler:
  "ler exemplo_gemeos 21 = Poupanca 5 (Finito 50) ''021'' 7"
  "ler exemplo_gemeos 22 = Poupanca 6 (Finito 50) ''021'' 7"
  "obj_cliente exemplo_gemeos 5 = \<lparr>nome = ''Bia'', cpf = ''222'', enderecos = [], contas = [21]\<rparr>"
  "obj_cliente exemplo_gemeos 6 = \<lparr>nome = ''Bia'', cpf = ''222'', enderecos = [], contas = [22]\<rparr>"
  by (simp_all add: exemplo_gemeos_def ler_def)

lemma gemeos_aux:
  assumes "comparar h0 k0 = Some r0"
  shows "h0 = exemplo_gemeos \<longrightarrow>
         k0 \<noteq> Contas 21 22 \<and> k0 \<noteq> Clientes 5 6 \<and> k0 \<noteq> Listas [21] [22]"
proof (rule comparar.raw_induct
    [where P = "\<lambda>h k r. h = exemplo_gemeos \<longrightarrow>
                  k \<noteq> Contas 21 22 \<and> k \<noteq> Clientes 5 6 \<and> k \<noteq> Listas [21] [22]",
     OF _ assms], goal_cases)
  case (1 f h k r)
  show ?case
  proof (intro impI conjI notI)
    assume h: "h = exemplo_gemeos" and k: "k = Contas 21 22"
    from 1(2) obtain t where "f h (Clientes 5 6) = Some t"
      by (auto simp: h k exemplo_gemeos_ler Poupanca_campos Option.bind_eq_Some_conv)
    from 1(1) [OF this] h show False by simp
  next
    assume h: "h = exemplo_gemeos" and k: "k = Clientes 5 6"
    from 1(2) have "f h (Listas [21] [22]) = Some r"
      by (simp add: h k exemplo_gemeos_ler)
    from 1(1) [OF this] h show False by simp
  next
    assume h: "h = exemplo_gemeos" and k: "k = Listas [21] [22]"
    from 1(2) obtain t where "f h (Contas 21 22) = Some t"
      by (auto simp: h k Option.bind_eq_Some_conv)
    from 1(1) [OF this] h show False by simp
  qed
qed

lemma gemeos_sem_fim: "comparar exemplo_gemeos (Contas 21 22) = None"
proof (cases "comparar exemplo_gemeos (Contas 21 22)")
  case None
  then show ?thesis .
next
  case (Some r)
  from gemeos_aux [OF this] show ?thesis by simp
qed

lemma gemeos_RecursionError:
  "deposito \<lparr>clientes = [5, 6], contas = [21]\<rparr> 22 v agora exemplo_gemeos =
     (Excecao RecursionError, exemplo_gemeos)"
  by (simp add: deposito_def gemeos_sem_fim)

section \<open>The claims\<close>

text \<open>
  C1, as amended. Take any sequence of \<open>creditar\<close> and \<open>debitar\<close> calls on one account
  in which no debit goes through the overdraft; for an account that is not a \<open>Corrente\<close>
  that is every sequence. The resulting balance is the initial balance with each
  credited amount added and each debited amount the balance covers subtracted, in call
  order, every addition and subtraction rounded to the nearest double. When none of
  them is changed by rounding, the balance is the initial balance plus the sum of the
  credits minus the sum of the successful debits.
\<close>

theorem saldo_soma:
  assumes "\<not> isinstance_Corrente c \<or> sem_cheque_especial cs c"
  shows "saldo (executar cs c) = acumular (saldo c) cs \<and>
         (exata cs c \<longrightarrow>
            val (saldo (executar cs c)) = val (saldo c) + creditado cs - debitado cs c)"
proof -
  have s: "sem_cheque_especial cs c"
    using assms sem_cheque_especial_outra by blast
  show ?thesis
    using executar_acumular [OF s] executar_exata [OF s] by simp
qed

text \<open>
  A \<open>Poupanca\<close> account with balance 200 is credited 50 and debited 30, 500 (refused)
  and 20: nothing rounds and the balance is \<open>200 + 50 - (30 + 20)\<close>. A \<open>Poupanca\<close>
  account with balance \<open>1e16\<close> is credited 1: the sum rounds back to \<open>1e16\<close>.
\<close>

theorem saldo_soma_witness:
  "\<not> isinstance_Corrente (Poupanca 0 (Finito 200) ''002'' 7) \<and>
   exata [Creditar (Finito 50), Debitar (Finito 30), Debitar (Finito 500), Debitar (Finito 20)]
     (Poupanca 0 (Finito 200) ''002'' 7) \<and>
   saldo (executar
            [Creditar (Finito 50), Debitar (Finito 30), Debitar (Finito 500), Debitar (Finito 20)]
            (Poupanca 0 (Finito 200) ''002'' 7)) = Finito 200 \<and>
   creditado
     [Creditar (Finito 50), Debitar (Finito 30), Debitar (Finito 500), Debitar (Finito 20)] = 50 \<and>
   debitado
     [Creditar (Finito 50), Debitar (Finito 30), Debitar (Finito 500), Debitar (Finito 20)]
     (Poupanca 0 (Finito 200) ''002'' 7) = 50 \<and>
   saldo (executar [Creditar (Finito 1)] (Poupanca 0 (Finito 10000000000000000) ''005'' 7)) =
     Finito 10000000000000000"
  using saldo_soma [of "Poupanca 0 (Finito 200) ''002'' 7"
      "[Creditar (Finito 50), Debitar (Finito 30), Debitar (Finito 500), Debitar (Finito 20)]"]
    saldo_soma [of "Poupanca 0 (Finito 10000000000000000) ''005'' 7" "[Creditar (Finito 1)]"]
  by (simp add: Poupanca_campos debitar_def creditar_def isinstance_Corrente_def contas_float)

text \<open>
  C1 as stated fails on the overdraft path: a \<open>Corrente\<close> account with balance 100 accepts
  \<open>debitar(150)\<close>, and its balance is then 0, while the initial balance minus the
  successful debit is \<open>-50\<close>.
\<close>

theorem saldo_soma_counterexample:
  "todos_bem_sucedidos [Debitar (Finito 150)] (Corrente 0 (Finito 100) ''001'' 7) \<and>
   val (saldo (executar [Debitar (Finito 150)] (Corrente 0 (Finito 100) ''001'' 7))) = 0 \<and>
   val (saldo (Corrente 0 (Finito 100) ''001'' 7)) + creditado [Debitar (Finito 150)]
     - debitado [Debitar (Finito 150)] (Corrente 0 (Finito 100) ''001'' 7) = - 50 \<and>
   val (saldo (executar [Debitar (Finito 150)] (Corrente 0 (Finito 100) ''001'' 7))) \<noteq>
     val (saldo (Corrente 0 (Finito 100) ''001'' 7)) + creditado [Debitar (Finito 150)]
       - debitado [Debitar (Finito 150)] (Corrente 0 (Finito 100) ''001'' 7)"
  by (simp add: Corrente_campos debitar_Corrente contas_float)

text \<open>
  C2. The claim says that \<open>deposito\<close>, \<open>saque\<close> and \<open>transferencia\<close> (on either side) raise
  \<open>NonCountError\<close> for an account that is not registered. The code raises an
  \<open>AttributeError\<close> instead, because it hands \<open>conta.numero\<close>, a \<open>str\<close>, to a constructor
  that reads \<open>.numero\<close> of its argument. The store is left as it was. Here the account
  at reference 13 is not registered.
\<close>

theorem conta_desconhecida_AttributeError:
  "deposito exemplo_banco 13 (Finito 10) 99 exemplo_heap =
     (Excecao (AttributeError ''str'' ''numero''), exemplo_heap) \<and>
   saque exemplo_banco 13 (Finito 10) 7 99 exemplo_heap =
     (Excecao (AttributeError ''str'' ''numero''), exemplo_heap) \<and>
   transferencia exemplo_banco 13 11 (Finito 10) 98 99 exemplo_heap =
     (Excecao (AttributeError ''str'' ''numero''), exemplo_heap) \<and>
   transferencia exemplo_banco 11 13 (Finito 10) 98 99 exemplo_heap =
     (Excecao (AttributeError ''str'' ''numero''), exemplo_heap)"
  by (simp add: nao_registrada exemplo_registradas)

text \<open>
  C3, as amended. A \<open>Corrente\<close> account with balance \<open>b\<close> and overdraft limit \<open>l\<close> is
  debited an amount \<open>v\<close> with \<open>v > b\<close> and \<open>v <= b + l\<close>, the sum being the double the
  code computes: \<open>debitar\<close> returns \<open>True\<close>, the balance becomes exactly \<open>0.0\<close>, the
  overdraft limit becomes \<open>l - (v - b)\<close> with the inner and the outer subtraction each
  rounded to the nearest double, and nothing else in the object changes.
\<close>

theorem cheque_especial_zera_saldo:
  assumes "classe self = ClasseCorrente l"
    and "fgt v (saldo self)" and "fle v (fadd (saldo self) l)"
  shows "debitar v self =
           (True, self\<lparr>classe := ClasseCorrente (fsub l (fsub v (saldo self))),
                       saldo := Finito 0\<rparr>)"
  using assms(2) fle_not_fgt [OF assms(3)]
  by (simp add: debitar_Corrente [OF assms(1)] fadd_commute)

text \<open>
  A new \<open>Corrente\<close> with balance 100 is debited 150: balance 0, limit 4950.
\<close>

theorem cheque_especial_zera_saldo_witness:
  "debitar (Finito 150) (Corrente 0 (Finito 100) ''1'' 7)
     = (True, (Corrente 0 (Finito 100) ''1'' 7)
                \<lparr>classe := ClasseCorrente (Finito 4950), saldo := Finito 0\<rparr>)"
  using cheque_especial_zera_saldo
    [of "Corrente 0 (Finito 100) ''1'' 7" "Finito 5000" "Finito 150"]
  by (simp add: Corrente_campos contas_float fadd_commute)

text \<open>
  C3 as stated fails in the value of the new limit: a new \<open>Corrente\<close> with balance \<open>0.1\<close>
  is debited \<open>0.3\<close>, which is above the balance and below balance plus limit. The debit
  succeeds and the balance is 0, but the limit stored is not the real number
  \<open>5000 - (0.3 - 0.1)\<close> taken on the doubles \<open>0.1\<close> and \<open>0.3\<close>.
\<close>

theorem cheque_especial_zera_saldo_counterexample:
  "val (arred (1 / 10)) < val (arred (3 / 10)) \<and>
   val (arred (3 / 10)) \<le> val (arred (1 / 10)) + val (arred 5000) \<and>
   fst (debitar (arred (3 / 10)) (Corrente 0 (arred (1 / 10)) ''001'' 7)) \<and>
   saldo (snd (debitar (arred (3 / 10)) (Corrente 0 (arred (1 / 10)) ''001'' 7))) = Finito 0 \<and>
   val (limite_restante (snd (debitar (arred (3 / 10)) (Corrente 0 (arred (1 / 10)) ''001'' 7))))
     \<noteq> val (arred 5000) - (val (arred (3 / 10)) - val (arred (1 / 10)))"
  by (simp add: Corrente_campos debitar_Corrente contas_float
        limite_restante_def)









text \<open>
  C7. The claim says that every operation the bank logs has a member of \<open>TipoOperacao\<close>
  as its \<open>tipo\<close>. \<open>saque\<close> logs \<open>TipoOperacao.SAQUE\<close>, but \<open>deposito\<close> and \<open>transferencia\<close>
  log plain strings, which are no members of the enum. Here: a deposit into the account
  at 11, a transfer from 11 to 12, and a withdrawal from 11.
\<close>

theorem tipo_texto:
  "map tipo (operacoes (ler (snd (deposito exemplo_banco 11 (Finito 10) 99 exemplo_heap)) 11)) =
     [Texto ''Deposito''] \<and>
   map tipo
     (operacoes (ler (snd (transferencia exemplo_banco 11 12 (Finito 10) 98 99 exemplo_heap)) 11)) =
     [Texto ''Transferencia - Debito''] \<and>
   map tipo
     (operacoes (ler (snd (transferencia exemplo_banco 11 12 (Finito 10) 98 99 exemplo_heap)) 12)) =
     [Texto ''Transferencia - Credito''] \<and>
   map tipo (operacoes (ler (snd (saque exemplo_banco 11 (Finito 10) 7 99 exemplo_heap)) 11)) =
     [Membro SAQUE]"
proof -
  have d: "debitar (Finito 10) (ler exemplo_heap 11) =
             (True, (ler exemplo_heap 11)\<lparr>saldo := fsub (Finito 100) (Finito 10)\<rparr>)"
    by (simp add: exemplo_ler Corrente_campos debitar_Corrente)
  have v: "verificar_reset 7 (ler exemplo_heap 11) = ler exemplo_heap 11"
    by (simp add: exemplo_ler Corrente_campos verificar_reset_def)
  have l: "fst (limite_saque 7 (ler exemplo_heap 11))"
    by (simp add: exemplo_ler Corrente_campos limite_saque_def isinstance_Poupanca_def
          verificar_reset_def)
  show ?thesis
    using l
    by (simp add: deposito_registrada transferencia_registradas saque_registrada
          exemplo_registradas transferencia_passos_def d v debitar_em_def creditar_em_def
          anexar_def ler_gravar creditar_def Let_def)
       (simp add: exemplo_ler Corrente_campos Poupanca_campos)
qed




text \<open>
  C9. When \<open>saque\<close> raises \<open>OperationError\<close> with the insufficient-balance message, the
  balance, the history and the class attributes of the account are as before, and the
  store differs from the old one by the daily reset only: if the date is not the
  account's last-update date, the withdrawal count is 0 and the last-update date is
  today; if it is, nothing has changed.
\<close>

theorem saque_sem_saldo:
  assumes "saque self conta v hoje agora h = (Excecao (OperationError msg_saldo), h')"
  shows "h' = gravar conta (verificar_reset hoje (ler h conta)) h \<and>
         saldo (ler h' conta) = saldo (ler h conta) \<and>
         operacoes (ler h' conta) = operacoes (ler h conta) \<and>
         classe (ler h' conta) = classe (ler h conta) \<and>
         (hoje \<noteq> ultima_atualizacao (ler h conta) \<longrightarrow>
            saques_diarios (ler h' conta) = 0 \<and> ultima_atualizacao (ler h' conta) = hoje) \<and>
         (hoje = ultima_atualizacao (ler h conta) \<longrightarrow> h' = h)"
proof -
  let ?c = "verificar_reset hoje (ler h conta)"
  have r: "conta_in h conta (contas self) = Some True"
  proof (cases "conta_in h conta (contas self)")
    case None
    then show ?thesis using assms by (simp add: comparacao_sem_fim)
  next
    case (Some b)
    then show ?thesis using assms by (cases b) (simp_all add: nao_registrada)
  qed
  have ne: "msg_limite \<noteq> msg_saldo" by (simp add: msg_limite_def msg_saldo_def)
  have "h' = gravar conta ?c h"
    using assms ne unfolding saque_registrada [OF r] Let_def
    by (simp split: if_splits)
  then show ?thesis
    by (auto simp: ler_gravar verificar_reset_campos verificar_reset_def gravar_ler)
qed

text \<open>
  The account at 12 has balance 200 and was last updated on day 7; a withdrawal of 500
  on day 8 is refused, and the account is left with the counter reset and the new date.
\<close>

theorem saque_sem_saldo_witness:
  "saque exemplo_banco 12 (Finito 500) 8 99 exemplo_heap =
     (Excecao (OperationError msg_saldo),
      gravar 12
        ((Poupanca 0 (Finito 200) ''002'' 7)\<lparr>saques_diarios := 0, ultima_atualizacao := 8\<rparr>)
        exemplo_heap) \<and>
   saldo (ler (snd (saque exemplo_banco 12 (Finito 500) 8 99 exemplo_heap)) 12) = Finito 200 \<and>
   operacoes (ler (snd (saque exemplo_banco 12 (Finito 500) 8 99 exemplo_heap)) 12) = [] \<and>
   saques_diarios (ler (snd (saque exemplo_banco 12 (Finito 500) 8 99 exemplo_heap)) 12) = 0 \<and>
   ultima_atualizacao (ler (snd (saque exemplo_banco 12 (Finito 500) 8 99 exemplo_heap)) 12) = 8"
  using saque_sem_saldo [OF saque_exemplo_sem_saldo]
  by (simp add: saque_exemplo_sem_saldo exemplo_ler Poupanca_campos ler_gravar
        verificar_reset_def)

text \<open>
  C10. A new \<open>Corrente\<close> has overdraft limit \<open>5000.0\<close> and a new \<open>Poupanca\<close> has interest
  rate \<open>0.001\<close>, the double nearest to one thousandth; both start with no withdrawal
  counted, a daily limit of \<open>20\<close> withdrawals and an empty history, and take owner,
  balance and number from the constructor's arguments.
\<close>

theorem construtores:
  "Corrente t s n hoje =
     \<lparr>classe = ClasseCorrente (Finito 5000), titular = t, saldo = s, numero = n,
      saques_diarios = 0, limite_saques_diarios = 20, operacoes = [],
      ultima_atualizacao = hoje\<rparr> \<and>
   Poupanca t s n hoje =
     \<lparr>classe = ClassePoupanca (arred (1 / 1000)), titular = t, saldo = s, numero = n,
      saques_diarios = 0, limite_saques_diarios = 20, operacoes = [],
      ultima_atualizacao = hoje\<rparr> \<and>
   arred (1 / 1000) = Finito (1152921504606847 / 1152921504606846976)"
  by (simp add: Corrente_def Poupanca_def Conta_init_def arred_literais)

end
